theory Spec2Isabelle
  imports Complex_Main
begin

section \<open>The numerical engine as seen from \<open>demographic_models.py\<close>\<close>

text \<open>
  Every model function of \<open>demographic_models.py\<close> is a straight line of calls into the
  \<open>dadi\<close> library: \<open>dadi.Numerics.default_grid\<close>, \<open>dadi.PhiManip.phi_1D\<close>,
  \<open>dadi.PhiManip.phi_1D_to_2D\<close>, \<open>dadi.Integration.two_pops\<close> and
  \<open>dadi.Spectrum.from_phi\<close>. The library is not part of the repository, so it is a
  parameter of the embedding: a record of five functions over three opaque types (grids
  \<open>'g\<close>, densities \<open>'p\<close>, spectra \<open>'f\<close>). The functions are total; what the library
  does when it raises is outside this development.

  Numbers are \<open>real\<close>: a finite double is read as the real number it stands for. Grid
  sizes and sample sizes are Python integers, \<open>int\<close> here.
\<close>

text \<open>
  Arithmetic on doubles is not arithmetic on the reals: every operation rounds. So the
  operations the repository applies to doubles are a parameter as well: \<open>numpy.exp\<close>,
  \<open>numpy.log\<close> and the operators \<open>*\<close>, \<open>/\<close> and \<open>-\<close> of \<open>numpy.float64\<close>, as functions
  on the reals that double precision can take. What they return outside the finite doubles
  (\<open>nan\<close>, the infinities, an exception) has no counterpart here; statements about the values
  they return are made for positive sizes and a non-zero \<open>Te\<close> only.
\<close>

record numpy =
  np_exp :: "real \<Rightarrow> real"
  np_log :: "real \<Rightarrow> real"
  np_mul :: "real \<Rightarrow> real \<Rightarrow> real"
  np_div :: "real \<Rightarrow> real \<Rightarrow> real"
  np_sub :: "real \<Rightarrow> real \<Rightarrow> real"

text \<open>
  A population size handed to \<open>two_pops\<close> is either a number (\<open>nu1\<close>) or a closure
  (\<open>nu1_func\<close>, a \<open>lambda t: ...\<close>).
\<close>

datatype size_arg = Const real | Closure "real \<Rightarrow> real"


record ('g, 'p, 'f) engine =
  default_grid :: "int \<Rightarrow> 'g"
  phi_1D :: "'g \<Rightarrow> 'p"
  phi_1D_to_2D :: "'g \<Rightarrow> 'p \<Rightarrow> 'p"
  two_pops :: "'p \<Rightarrow> 'g \<Rightarrow> real \<Rightarrow> size_arg \<Rightarrow> size_arg \<Rightarrow> real \<Rightarrow> real \<Rightarrow> 'p"
  from_phi :: "'p \<Rightarrow> int \<times> int \<Rightarrow> 'g \<times> 'g \<Rightarrow> 'f"

text \<open>
  The calls a run makes are recorded, in order, with their scalar arguments. For
  \<open>Two_pops\<close> these are the duration \<open>T\<close>, the two sizes and \<open>m12\<close>, \<open>m21\<close>.
\<close>

datatype engine_call =
    Default_grid int
  | Phi_1D
  | Phi_1D_to_2D
  | is_Two_pops: Two_pops (call_T: real) (call_nu1: size_arg) (call_nu2: size_arg)
      (call_m12: real) (call_m21: real)
  | From_phi int int

type_synonym calls = "engine_call list"

definition Numerics_default_grid ::
  "('g, 'p, 'f) engine \<Rightarrow> int \<Rightarrow> calls \<Rightarrow> 'g \<times> calls" where
  "Numerics_default_grid dadi pts s = (default_grid dadi pts, s @ [Default_grid pts])"

definition PhiManip_phi_1D ::
  "('g, 'p, 'f) engine \<Rightarrow> 'g \<Rightarrow> calls \<Rightarrow> 'p \<times> calls" where
  "PhiManip_phi_1D dadi xx s = (phi_1D dadi xx, s @ [Phi_1D])"

definition PhiManip_phi_1D_to_2D ::
  "('g, 'p, 'f) engine \<Rightarrow> 'g \<Rightarrow> 'p \<Rightarrow> calls \<Rightarrow> 'p \<times> calls" where
  "PhiManip_phi_1D_to_2D dadi xx phi s = (phi_1D_to_2D dadi xx phi, s @ [Phi_1D_to_2D])"

definition Integration_two_pops ::
  "('g, 'p, 'f) engine \<Rightarrow> 'p \<Rightarrow> 'g \<Rightarrow> real \<Rightarrow> size_arg \<Rightarrow> size_arg \<Rightarrow> real \<Rightarrow> real \<Rightarrow>
     calls \<Rightarrow> 'p \<times> calls" where
  "Integration_two_pops dadi phi xx T nu1 nu2 m12 m21 s =
     (two_pops dadi phi xx T nu1 nu2 m12 m21, s @ [Two_pops T nu1 nu2 m12 m21])"

definition Spectrum_from_phi ::
  "('g, 'p, 'f) engine \<Rightarrow> 'p \<Rightarrow> int \<times> int \<Rightarrow> 'g \<times> 'g \<Rightarrow> calls \<Rightarrow> 'f \<times> calls" where
  "Spectrum_from_phi dadi phi ns xxs s =
     (from_phi dadi phi ns xxs, s @ [From_phi (fst ns) (snd ns)])"

section \<open>The model functions\<close>

text \<open>
  The first statement of every model function unpacks \<open>params\<close> into as many names as the
  model has parameters; Python raises \<open>ValueError\<close> when the lengths differ.
\<close>

datatype error = ValueError

type_synonym 'f outcome = "(error + 'f) \<times> calls"

subsection \<open>Strict isolation\<close>

fun SI :: "('g, 'p, 'f) engine \<Rightarrow> real list \<Rightarrow> int \<times> int \<Rightarrow> int \<Rightarrow> calls \<Rightarrow> 'f outcome" where
  "SI dadi params (n1, n2) pts s =
     (case params of
        [nu1, nu2, Ts] \<Rightarrow>
          (let (xx, s) = Numerics_default_grid dadi pts s;
               (phi, s) = PhiManip_phi_1D dadi xx s;
               (phi, s) = PhiManip_phi_1D_to_2D dadi xx phi s;
               (phi, s) = Integration_two_pops dadi phi xx Ts (Const nu1) (Const nu2) 0 0 s;
               (fs, s) = Spectrum_from_phi dadi phi (n1, n2) (xx, xx) s
           in (Inr fs, s))
      | _ \<Rightarrow> (Inl ValueError, s))"

fun SIex ::
  "numpy \<Rightarrow> ('g, 'p, 'f) engine \<Rightarrow> real list \<Rightarrow> int \<times> int \<Rightarrow> int \<Rightarrow> calls \<Rightarrow> 'f outcome" where
  "SIex numpy dadi params (n1, n2) pts s =
     (case params of
        [nu1a, nu2a, nu1, nu2, Ts, Te] \<Rightarrow>
          (let (xx, s) = Numerics_default_grid dadi pts s;
               (phi, s) = PhiManip_phi_1D dadi xx s;
               (phi, s) = PhiManip_phi_1D_to_2D dadi xx phi s;
               (phi, s) = Integration_two_pops dadi phi xx Ts (Const nu1a) (Const nu2a) 0 0 s;
               nu1_func = (\<lambda>t. np_exp numpy (np_div numpy (np_mul numpy (np_log numpy nu1) t) Te));
               nu2_func = (\<lambda>t. np_exp numpy (np_div numpy (np_mul numpy (np_log numpy nu2) t) Te));
               (phi, s) = Integration_two_pops dadi phi xx Te (Closure nu1_func) (Closure nu2_func) 0 0 s;
               (fs, s) = Spectrum_from_phi dadi phi (n1, n2) (xx, xx) s
           in (Inr fs, s))
      | _ \<Rightarrow> (Inl ValueError, s))"

fun SIbo ::
  "numpy \<Rightarrow> ('g, 'p, 'f) engine \<Rightarrow> real list \<Rightarrow> int \<times> int \<Rightarrow> int \<Rightarrow> calls \<Rightarrow> 'f outcome" where
  "SIbo numpy dadi params (n1, n2) pts s =
     (case params of
        [nu1a, nu2a, nu1B, nu2B, nu1, nu2, Ts, TB, Te] \<Rightarrow>
          (let (xx, s) = Numerics_default_grid dadi pts s;
               (phi, s) = PhiManip_phi_1D dadi xx s;
               (phi, s) = PhiManip_phi_1D_to_2D dadi xx phi s;
               (phi, s) = Integration_two_pops dadi phi xx Ts (Const nu1a) (Const nu2a) 0 0 s;
               (phi, s) = Integration_two_pops dadi phi xx TB (Const nu1B) (Const nu2B) 0 0 s;
               nu1_func = (\<lambda>t. np_exp numpy (np_div numpy (np_mul numpy (np_log numpy nu1) t) Te));
               nu2_func = (\<lambda>t. np_exp numpy (np_div numpy (np_mul numpy (np_log numpy nu2) t) Te));
               (phi, s) = Integration_two_pops dadi phi xx Te (Closure nu1_func) (Closure nu2_func) 0 0 s;
               (fs, s) = Spectrum_from_phi dadi phi (n1, n2) (xx, xx) s
           in (Inr fs, s))
      | _ \<Rightarrow> (Inl ValueError, s))"

subsection \<open>Isolation with migration\<close>

fun IM :: "('g, 'p, 'f) engine \<Rightarrow> real list \<Rightarrow> int \<times> int \<Rightarrow> int \<Rightarrow> calls \<Rightarrow> 'f outcome" where
  "IM dadi params (n1, n2) pts s =
     (case params of
        [nu1, nu2, m12, m21, Ts] \<Rightarrow>
          (let (xx, s) = Numerics_default_grid dadi pts s;
               (phi, s) = PhiManip_phi_1D dadi xx s;
               (phi, s) = PhiManip_phi_1D_to_2D dadi xx phi s;
               (phi, s) = Integration_two_pops dadi phi xx Ts (Const nu1) (Const nu2) m12 m21 s;
               (fs, s) = Spectrum_from_phi dadi phi (n1, n2) (xx, xx) s
           in (Inr fs, s))
      | _ \<Rightarrow> (Inl ValueError, s))"

fun IMex ::
  "numpy \<Rightarrow> ('g, 'p, 'f) engine \<Rightarrow> real list \<Rightarrow> int \<times> int \<Rightarrow> int \<Rightarrow> calls \<Rightarrow> 'f outcome" where
  "IMex numpy dadi params (n1, n2) pts s =
     (case params of
        [nu1a, nu2a, nu1, nu2, m12, m21, Ts, Te] \<Rightarrow>
          (let (xx, s) = Numerics_default_grid dadi pts s;
               (phi, s) = PhiManip_phi_1D dadi xx s;
               (phi, s) = PhiManip_phi_1D_to_2D dadi xx phi s;
               (phi, s) = Integration_two_pops dadi phi xx Ts (Const nu1a) (Const nu2a) m12 m21 s;
               nu1_func = (\<lambda>t. np_exp numpy (np_div numpy (np_mul numpy (np_log numpy nu1) t) Te));
               nu2_func = (\<lambda>t. np_exp numpy (np_div numpy (np_mul numpy (np_log numpy nu2) t) Te));
               (phi, s) = Integration_two_pops dadi phi xx Te (Closure nu1_func) (Closure nu2_func) m12 m21 s;
               (fs, s) = Spectrum_from_phi dadi phi (n1, n2) (xx, xx) s
           in (Inr fs, s))
      | _ \<Rightarrow> (Inl ValueError, s))"

subsection \<open>Secondary contact\<close>

fun SC :: "('g, 'p, 'f) engine \<Rightarrow> real list \<Rightarrow> int \<times> int \<Rightarrow> int \<Rightarrow> calls \<Rightarrow> 'f outcome" where
  "SC dadi params (n1, n2) pts s =
     (case params of
        [nu1, nu2, m12, m21, Ts, Tsc] \<Rightarrow>
          (let (xx, s) = Numerics_default_grid dadi pts s;
               (phi, s) = PhiManip_phi_1D dadi xx s;
               (phi, s) = PhiManip_phi_1D_to_2D dadi xx phi s;
               (phi, s) = Integration_two_pops dadi phi xx Ts (Const nu1) (Const nu2) 0 0 s;
               (phi, s) = Integration_two_pops dadi phi xx Tsc (Const nu1) (Const nu2) m12 m21 s;
               (fs, s) = Spectrum_from_phi dadi phi (n1, n2) (xx, xx) s
           in (Inr fs, s))
      | _ \<Rightarrow> (Inl ValueError, s))"

fun SCex ::
  "numpy \<Rightarrow> ('g, 'p, 'f) engine \<Rightarrow> real list \<Rightarrow> int \<times> int \<Rightarrow> int \<Rightarrow> calls \<Rightarrow> 'f outcome" where
  "SCex numpy dadi params (n1, n2) pts s =
     (case params of
        [nu1a, nu2a, nu1, nu2, m12, m21, Ts, Tsc, Te] \<Rightarrow>
          (let (xx, s) = Numerics_default_grid dadi pts s;
               (phi, s) = PhiManip_phi_1D dadi xx s;
               (phi, s) = PhiManip_phi_1D_to_2D dadi xx phi s;
               (phi, s) = Integration_two_pops dadi phi xx Ts (Const nu1a) (Const nu2a) 0 0 s;
               (phi, s) = Integration_two_pops dadi phi xx Tsc (Const nu1a) (Const nu2a) m12 m21 s;
               nu1_func = (\<lambda>t. np_exp numpy (np_div numpy (np_mul numpy (np_log numpy nu1) t) Te));
               nu2_func = (\<lambda>t. np_exp numpy (np_div numpy (np_mul numpy (np_log numpy nu2) t) Te));
               (phi, s) = Integration_two_pops dadi phi xx Te (Closure nu1_func) (Closure nu2_func) m12 m21 s;
               (fs, s) = Spectrum_from_phi dadi phi (n1, n2) (xx, xx) s
           in (Inr fs, s))
      | _ \<Rightarrow> (Inl ValueError, s))"

subsection \<open>Ancient migration\<close>

fun AM :: "('g, 'p, 'f) engine \<Rightarrow> real list \<Rightarrow> int \<times> int \<Rightarrow> int \<Rightarrow> calls \<Rightarrow> 'f outcome" where
  "AM dadi params (n1, n2) pts s =
     (case params of
        [nu1, nu2, m12, m21, Tam, Ts] \<Rightarrow>
          (let (xx, s) = Numerics_default_grid dadi pts s;
               (phi, s) = PhiManip_phi_1D dadi xx s;
               (phi, s) = PhiManip_phi_1D_to_2D dadi xx phi s;
               (phi, s) = Integration_two_pops dadi phi xx Tam (Const nu1) (Const nu2) m12 m21 s;
               (phi, s) = Integration_two_pops dadi phi xx Ts (Const nu1) (Const nu2) 0 0 s;
               (fs, s) = Spectrum_from_phi dadi phi (n1, n2) (xx, xx) s
           in (Inr fs, s))
      | _ \<Rightarrow> (Inl ValueError, s))"

fun AMex ::
  "numpy \<Rightarrow> ('g, 'p, 'f) engine \<Rightarrow> real list \<Rightarrow> int \<times> int \<Rightarrow> int \<Rightarrow> calls \<Rightarrow> 'f outcome" where
  "AMex numpy dadi params (n1, n2) pts s =
     (case params of
        [nu1a, nu2a, nu1, nu2, m12, m21, Tam, Ts, Te] \<Rightarrow>
          (let (xx, s) = Numerics_default_grid dadi pts s;
               (phi, s) = PhiManip_phi_1D dadi xx s;
               (phi, s) = PhiManip_phi_1D_to_2D dadi xx phi s;
               (phi, s) = Integration_two_pops dadi phi xx Tam (Const nu1a) (Const nu2a) m12 m21 s;
               (phi, s) = Integration_two_pops dadi phi xx Ts (Const nu1a) (Const nu2a) 0 0 s;
               nu1_func = (\<lambda>t. np_exp numpy (np_div numpy (np_mul numpy (np_log numpy nu1) t) Te));
               nu2_func = (\<lambda>t. np_exp numpy (np_div numpy (np_mul numpy (np_log numpy nu2) t) Te));
               (phi, s) = Integration_two_pops dadi phi xx Te (Closure nu1_func) (Closure nu2_func) 0 0 s;
               (fs, s) = Spectrum_from_phi dadi phi (n1, n2) (xx, xx) s
           in (Inr fs, s))
      | _ \<Rightarrow> (Inl ValueError, s))"

subsection \<open>Periodic secondary contact\<close>

fun PSC :: "('g, 'p, 'f) engine \<Rightarrow> real list \<Rightarrow> int \<times> int \<Rightarrow> int \<Rightarrow> calls \<Rightarrow> 'f outcome" where
  "PSC dadi params (n1, n2) pts s =
     (case params of
        [nu1, nu2, m12, m21, Ts, Tsc] \<Rightarrow>
          (let (xx, s) = Numerics_default_grid dadi pts s;
               (phi, s) = PhiManip_phi_1D dadi xx s;
               (phi, s) = PhiManip_phi_1D_to_2D dadi xx phi s;
               (phi, s) = Integration_two_pops dadi phi xx Ts (Const nu1) (Const nu2) 0 0 s;
               (phi, s) = Integration_two_pops dadi phi xx Tsc (Const nu1) (Const nu2) m12 m21 s;
               (phi, s) = Integration_two_pops dadi phi xx Ts (Const nu1) (Const nu2) 0 0 s;
               (phi, s) = Integration_two_pops dadi phi xx Tsc (Const nu1) (Const nu2) m12 m21 s;
               (fs, s) = Spectrum_from_phi dadi phi (n1, n2) (xx, xx) s
           in (Inr fs, s))
      | _ \<Rightarrow> (Inl ValueError, s))"

fun PSCex ::
  "numpy \<Rightarrow> ('g, 'p, 'f) engine \<Rightarrow> real list \<Rightarrow> int \<times> int \<Rightarrow> int \<Rightarrow> calls \<Rightarrow> 'f outcome" where
  "PSCex numpy dadi params (n1, n2) pts s =
     (case params of
        [nu1a, nu2a, nu1, nu2, m12, m21, Ts, Tsc, Te] \<Rightarrow>
          (let (xx, s) = Numerics_default_grid dadi pts s;
               (phi, s) = PhiManip_phi_1D dadi xx s;
               (phi, s) = PhiManip_phi_1D_to_2D dadi xx phi s;
               (phi, s) = Integration_two_pops dadi phi xx Ts (Const nu1a) (Const nu2a) 0 0 s;
               (phi, s) = Integration_two_pops dadi phi xx Tsc (Const nu1a) (Const nu2a) m12 m21 s;
               (phi, s) = Integration_two_pops dadi phi xx Ts (Const nu1a) (Const nu2a) 0 0 s;
               (phi, s) = Integration_two_pops dadi phi xx Tsc (Const nu1a) (Const nu2a) m12 m21 s;
               nu1_func = (\<lambda>t. np_exp numpy (np_div numpy (np_mul numpy (np_log numpy nu1) t) Te));
               nu2_func = (\<lambda>t. np_exp numpy (np_div numpy (np_mul numpy (np_log numpy nu2) t) Te));
               (phi, s) = Integration_two_pops dadi phi xx Te (Closure nu1_func) (Closure nu2_func) m12 m21 s;
               (fs, s) = Spectrum_from_phi dadi phi (n1, n2) (xx, xx) s
           in (Inr fs, s))
      | _ \<Rightarrow> (Inl ValueError, s))"

subsection \<open>Periodic ancient migration\<close>

fun PAM :: "('g, 'p, 'f) engine \<Rightarrow> real list \<Rightarrow> int \<times> int \<Rightarrow> int \<Rightarrow> calls \<Rightarrow> 'f outcome" where
  "PAM dadi params (n1, n2) pts s =
     (case params of
        [nu1, nu2, m12, m21, Tam, Ts] \<Rightarrow>
          (let (xx, s) = Numerics_default_grid dadi pts s;
               (phi, s) = PhiManip_phi_1D dadi xx s;
               (phi, s) = PhiManip_phi_1D_to_2D dadi xx phi s;
               (phi, s) = Integration_two_pops dadi phi xx Tam (Const nu1) (Const nu2) m12 m21 s;
               (phi, s) = Integration_two_pops dadi phi xx Ts (Const nu1) (Const nu2) 0 0 s;
               (phi, s) = Integration_two_pops dadi phi xx Tam (Const nu1) (Const nu2) m12 m21 s;
               (phi, s) = Integration_two_pops dadi phi xx Ts (Const nu1) (Const nu2) 0 0 s;
               (fs, s) = Spectrum_from_phi dadi phi (n1, n2) (xx, xx) s
           in (Inr fs, s))
      | _ \<Rightarrow> (Inl ValueError, s))"

fun PAMex ::
  "numpy \<Rightarrow> ('g, 'p, 'f) engine \<Rightarrow> real list \<Rightarrow> int \<times> int \<Rightarrow> int \<Rightarrow> calls \<Rightarrow> 'f outcome" where
  "PAMex numpy dadi params (n1, n2) pts s =
     (case params of
        [nu1a, nu2a, nu1, nu2, m12, m21, Tam, Ts, Te] \<Rightarrow>
          (let (xx, s) = Numerics_default_grid dadi pts s;
               (phi, s) = PhiManip_phi_1D dadi xx s;
               (phi, s) = PhiManip_phi_1D_to_2D dadi xx phi s;
               (phi, s) = Integration_two_pops dadi phi xx Tam (Const nu1a) (Const nu2a) m12 m21 s;
               (phi, s) = Integration_two_pops dadi phi xx Ts (Const nu1a) (Const nu2a) 0 0 s;
               (phi, s) = Integration_two_pops dadi phi xx Tam (Const nu1a) (Const nu2a) m12 m21 s;
               (phi, s) = Integration_two_pops dadi phi xx Ts (Const nu1a) (Const nu2a) 0 0 s;
               nu1_func = (\<lambda>t. np_exp numpy (np_div numpy (np_mul numpy (np_log numpy nu1) t) Te));
               nu2_func = (\<lambda>t. np_exp numpy (np_div numpy (np_mul numpy (np_log numpy nu2) t) Te));
               (phi, s) = Integration_two_pops dadi phi xx Te (Closure nu1_func) (Closure nu2_func) 0 0 s;
               (fs, s) = Spectrum_from_phi dadi phi (n1, n2) (xx, xx) s
           in (Inr fs, s))
      | _ \<Rightarrow> (Inl ValueError, s))"

subsection \<open>The module as a whole\<close>

text \<open>
  The thirteen functions of the module, by name, so that a statement can range over all
  of them; \<open>demographic_models m\<close> is the attribute lookup \<open>demographic_models.m\<close>, in a
  module that has imported \<open>numpy\<close>.
\<close>

datatype model =
    Model_SI | Model_SIex | Model_SIbo
  | Model_IM | Model_IMex
  | Model_SC | Model_SCex
  | Model_AM | Model_AMex
  | Model_PSC | Model_PSCex
  | Model_PAM | Model_PAMex

fun demographic_models ::
  "model \<Rightarrow> numpy \<Rightarrow> ('g, 'p, 'f) engine \<Rightarrow> real list \<Rightarrow> int \<times> int \<Rightarrow> int \<Rightarrow> calls \<Rightarrow>
     'f outcome" where
  "demographic_models Model_SI numpy = SI"
| "demographic_models Model_SIex numpy = SIex numpy"
| "demographic_models Model_SIbo numpy = SIbo numpy"
| "demographic_models Model_IM numpy = IM"
| "demographic_models Model_IMex numpy = IMex numpy"
| "demographic_models Model_SC numpy = SC"
| "demographic_models Model_SCex numpy = SCex numpy"
| "demographic_models Model_AM numpy = AM"
| "demographic_models Model_AMex numpy = AMex numpy"
| "demographic_models Model_PSC numpy = PSC"
| "demographic_models Model_PSCex numpy = PSCex numpy"
| "demographic_models Model_PAM numpy = PAM"
| "demographic_models Model_PAMex numpy = PAMex numpy"

text \<open>
  The number of names on the left of the unpacking assignment that opens each function.
\<close>

fun arity :: "model \<Rightarrow> nat" where
  "arity Model_SI = 3"
| "arity Model_SIex = 6"
| "arity Model_SIbo = 9"
| "arity Model_IM = 5"
| "arity Model_IMex = 8"
| "arity Model_SC = 6"
| "arity Model_SCex = 9"
| "arity Model_AM = 6"
| "arity Model_AMex = 9"
| "arity Model_PSC = 6"
| "arity Model_PSCex = 9"
| "arity Model_PAM = 6"
| "arity Model_PAMex = 9"

section \<open>Reading a record of calls\<close>

text \<open>
  The epochs of a run are its \<open>two_pops\<close> calls, in order. In the growth variants the
  growth epoch is the last one.
\<close>

definition epochs :: "calls \<Rightarrow> engine_call list" where
  "epochs cs = filter is_Two_pops cs"









text \<open>
  Arithmetic without rounding, on the reals. It is not what the program runs on; it is
  the arithmetic in which the specification writes its formulas.
\<close>

definition exact_arithmetic :: numpy where
  "exact_arithmetic =
     \<lparr>np_exp = exp, np_log = ln, np_mul = (\<lambda>x y. x * y), np_div = (\<lambda>x y. x / y),
      np_sub = (\<lambda>x y. x - y)\<rparr>"


text \<open>An engine over one-point types, for statements at concrete inputs.\<close>

definition null_engine :: "(unit, unit, unit) engine" where
  "null_engine =
     \<lparr>default_grid = (\<lambda>pts. ()), phi_1D = (\<lambda>xx. ()), phi_1D_to_2D = (\<lambda>xx phi. ()),
      two_pops = (\<lambda>phi xx T nu1 nu2 m12 m21. ()), from_phi = (\<lambda>phi ns xxs. ())\<rparr>"

section \<open>The fitting script \<open>JPA_JTR_PAMex_folded.py\<close>\<close>

text \<open>
  The script is one run from top to bottom. What it uses of \<open>dadi\<close> beyond the engine
  (reading the data, the extrapolating wrapper, the perturbation, the optimiser, the two
  scores) is again a parameter: a record of functions over opaque types (the data
  dictionary \<open>'dd\<close>, spectra \<open>'f\<close>) and over the type \<open>'m\<close> of the model function
  that is wrapped. Keyword arguments are passed in the order in which the script writes
  them. The script binds \<open>p0\<close> a second time, to the perturbed vector; that second binding
  is \<open>p0'\<close> here. In \<open>2*len(params)-2*ll_opt\<close> the first product is a product of integers;
  the second product and the difference are operations on doubles. The plot at the end of
  the script is left out.
\<close>

record ('dd, 'm, 'f) library =
  make_data_dict :: "string \<Rightarrow> 'dd"
  from_data_dict :: "'dd \<Rightarrow> string list \<Rightarrow> int list \<Rightarrow> bool \<Rightarrow> 'f"
  sample_sizes :: "'f \<Rightarrow> int \<times> int"
  make_extrap_log_func :: "'m \<Rightarrow> real list \<Rightarrow> int \<times> int \<Rightarrow> int list \<Rightarrow> 'f"
  perturb_params :: "real list \<Rightarrow> int \<Rightarrow> real list \<Rightarrow> real list \<Rightarrow> real list"
  optimize_log ::
    "real list \<Rightarrow> 'f \<Rightarrow> (real list \<Rightarrow> int \<times> int \<Rightarrow> int list \<Rightarrow> 'f) \<Rightarrow> int list \<Rightarrow>
       real list \<Rightarrow> real list \<Rightarrow> nat \<Rightarrow> nat \<Rightarrow> real list"
  ll_multinom :: "'f \<Rightarrow> 'f \<Rightarrow> real"
  optimal_sfs_scaling :: "'f \<Rightarrow> 'f \<Rightarrow> real"

text \<open>The module-level settings of the script (lines 25, 43, 44, 47 and 48).\<close>

definition pts_l :: "int list" where
  "pts_l = [60, 50]"

definition upper_bound :: "real list" where
  "upper_bound = [100, 100, 100, 100, 20, 20, 12, 12, 12]"

definition lower_bound :: "real list" where
  "lower_bound = [0.01, 0.01, 0.01, 0.01, 0, 0, 0, 0, 0]"

definition params :: "string list" where
  "params = [''nu1a'', ''nu2a'', ''nu1'', ''nu2'', ''m12'', ''m21'', ''Tam'', ''Ts'', ''Te'']"

definition p0 :: "real list" where
  "p0 = [1, 1, 1, 1, 1, 1, 1, 1, 1]"

text \<open>The four values the script prints.\<close>

record report =
  printed_popt :: "real list"
  printed_ll_opt :: real
  printed_theta :: real
  printed_AIC :: real

text \<open>The library calls of the script, in order, with the arguments that are plain data.\<close>

datatype script_call =
    Make_data_dict string
  | From_data_dict "string list" "int list" bool
  | Make_extrap_log_func
  | Perturb_params "real list" int "real list" "real list"
  | Optimize_log "real list" "int list" "real list" "real list" nat nat
  | Func_ex "real list" "int \<times> int" "int list"
  | Ll_multinom
  | Optimal_sfs_scaling

definition JPA_JTR_PAMex_folded ::
  "numpy \<Rightarrow> ('g, 'p, 'f) engine \<Rightarrow>
   ('dd, real list \<Rightarrow> int \<times> int \<Rightarrow> int \<Rightarrow> calls \<Rightarrow> 'f outcome, 'f) library \<Rightarrow>
   report \<times> script_call list" where
  "JPA_JTR_PAMex_folded numpy dadi lib =
     (let dd = make_data_dict lib ''dadi_input_JPA_JTR.tsv'';
          data = from_data_dict lib dd [''JPA'', ''JTR''] [49, 41] False;
          ns = sample_sizes lib data;
          func = PAMex numpy dadi;
          func_ex = make_extrap_log_func lib func;
          p0' = perturb_params lib p0 1 upper_bound lower_bound;
          popt = optimize_log lib p0' data func_ex pts_l lower_bound upper_bound (length p0') 10;
          model = func_ex popt ns pts_l;
          ll_opt = ll_multinom lib model data;
          theta = optimal_sfs_scaling lib model data;
          AIC = np_sub numpy (real (2 * length params)) (np_mul numpy 2 ll_opt)
      in (\<lparr>printed_popt = popt, printed_ll_opt = ll_opt, printed_theta = theta,
            printed_AIC = AIC\<rparr>,
          [Make_data_dict ''dadi_input_JPA_JTR.tsv'',
           From_data_dict [''JPA'', ''JTR''] [49, 41] False,
           Make_extrap_log_func,
           Perturb_params p0 1 upper_bound lower_bound,
           Optimize_log p0' pts_l lower_bound upper_bound (length p0') 10,
           Func_ex popt ns pts_l,
           Ll_multinom,
           Optimal_sfs_scaling]))"



section \<open>Properties\<close>

subsection \<open>Auxiliary facts\<close>

lemmas call_defs = Numerics_default_grid_def PhiManip_phi_1D_def PhiManip_phi_1D_to_2D_def
  Integration_two_pops_def Spectrum_from_phi_def














subsection \<open>The growth trajectory\<close>




subsection \<open>The grid list of the script\<close>



subsection \<open>Zero migration\<close>

text \<open>
  Claim C3: \<open>IM\<close> with \<open>m12 = 0\<close> and \<open>m21 = 0\<close> and \<open>SI\<close> with the same \<open>nu1\<close>,
  \<open>nu2\<close>, \<open>Ts\<close>, sample sizes and grid size make the same engine calls with the same
  arguments and so return the same spectrum, for every engine.
\<close>

theorem IM_zero_migration_is_SI:
  "IM dadi [nu1, nu2, 0, 0, Ts] (n1, n2) pts s = SI dadi [nu1, nu2, Ts] (n1, n2) pts s"
  by simp

subsection \<open>The periodic models\<close>

text \<open>
  Claim C4: \<open>PAM\<close> advances the density four times, each call on the density the call before
  returned: \<open>Tam\<close> with migration \<open>m12\<close>, \<open>m21\<close>; \<open>Ts\<close> without migration; \<open>Tam\<close> with
  migration; \<open>Ts\<close> without. \<open>PSC\<close> likewise: \<open>Ts\<close> without migration, \<open>Tsc\<close> with, \<open>Ts\<close>
  without, \<open>Tsc\<close> with. The record of calls shows the four \<open>two_pops\<close> calls of each, in
  that order, for every parameter vector, also when two of them have equal arguments.
\<close>

theorem periodic_models_four_advances:
  "PAM dadi [nu1, nu2, m12, m21, Tam, Ts] (n1, n2) pts s =
     (let xx = default_grid dadi pts;
          phi0 = phi_1D_to_2D dadi xx (phi_1D dadi xx);
          phi1 = two_pops dadi phi0 xx Tam (Const nu1) (Const nu2) m12 m21;
          phi2 = two_pops dadi phi1 xx Ts (Const nu1) (Const nu2) 0 0;
          phi3 = two_pops dadi phi2 xx Tam (Const nu1) (Const nu2) m12 m21;
          phi4 = two_pops dadi phi3 xx Ts (Const nu1) (Const nu2) 0 0
      in (Inr (from_phi dadi phi4 (n1, n2) (xx, xx)),
          s @ [Default_grid pts, Phi_1D, Phi_1D_to_2D,
               Two_pops Tam (Const nu1) (Const nu2) m12 m21,
               Two_pops Ts (Const nu1) (Const nu2) 0 0,
               Two_pops Tam (Const nu1) (Const nu2) m12 m21,
               Two_pops Ts (Const nu1) (Const nu2) 0 0,
               From_phi n1 n2])) \<and>
   PSC dadi [nu1, nu2, m12, m21, Ts, Tsc] (n1, n2) pts s =
     (let xx = default_grid dadi pts;
          phi0 = phi_1D_to_2D dadi xx (phi_1D dadi xx);
          phi1 = two_pops dadi phi0 xx Ts (Const nu1) (Const nu2) 0 0;
          phi2 = two_pops dadi phi1 xx Tsc (Const nu1) (Const nu2) m12 m21;
          phi3 = two_pops dadi phi2 xx Ts (Const nu1) (Const nu2) 0 0;
          phi4 = two_pops dadi phi3 xx Tsc (Const nu1) (Const nu2) m12 m21
      in (Inr (from_phi dadi phi4 (n1, n2) (xx, xx)),
          s @ [Default_grid pts, Phi_1D, Phi_1D_to_2D,
               Two_pops Ts (Const nu1) (Const nu2) 0 0,
               Two_pops Tsc (Const nu1) (Const nu2) m12 m21,
               Two_pops Ts (Const nu1) (Const nu2) 0 0,
               Two_pops Tsc (Const nu1) (Const nu2) m12 m21,
               From_phi n1 n2])) \<and>
   length (epochs (snd (PAM dadi [nu1, nu2, m12, m21, Tam, Ts] (n1, n2) pts []))) = 4 \<and>
   length (epochs (snd (PSC dadi [nu1, nu2, m12, m21, Ts, Tsc] (n1, n2) pts []))) = 4"
  by (simp add: call_defs Let_def epochs_def)

subsection \<open>Strict isolation\<close>

text \<open>
  Claim C5: \<open>SI\<close> builds the grid, the one-population density on it, the two-population
  density of the split, advances it once for \<open>Ts\<close> with constant sizes \<open>nu1\<close>, \<open>nu2\<close> and
  both migration rates 0, and projects the result at \<open>(n1, n2)\<close>. These five calls are all
  the calls it makes.
\<close>

theorem SI_epoch_composition:
  "SI dadi [nu1, nu2, Ts] (n1, n2) pts s =
     (let xx = default_grid dadi pts;
          phi = phi_1D dadi xx;
          phi = phi_1D_to_2D dadi xx phi;
          phi = two_pops dadi phi xx Ts (Const nu1) (Const nu2) 0 0
      in (Inr (from_phi dadi phi (n1, n2) (xx, xx)),
          s @ [Default_grid pts, Phi_1D, Phi_1D_to_2D,
               Two_pops Ts (Const nu1) (Const nu2) 0 0, From_phi n1 n2]))"
  by (simp add: call_defs Let_def)

subsection \<open>The information criterion\<close>

text \<open>
  Claim C6: the \<open>AIC\<close> the script prints is \<open>2 \<cdot> 9 - 2 \<cdot> logLikelihood\<close>, where
  \<open>logLikelihood\<close> is the value the script prints as log-likelihood:
  \<open>ll_multinom(model, data)\<close> for the data read from the input file and the model spectrum
  that the extrapolated \<open>PAMex\<close> gives at the optimised parameters, the sample sizes of
  the data and \<open>pts_l\<close>. The product with the log-likelihood and the difference are those
  of double precision; in exact arithmetic the value is the real number
  \<open>2 \<cdot> 9 - 2 \<cdot> logLikelihood\<close>. The 9 is the length of \<open>params\<close>, the nine parameter names
  of \<open>PAMex\<close> in the order in which \<open>PAMex\<close> unpacks them; \<open>theta\<close> is not among them.
\<close>

theorem AIC_nine_parameters:
  "(let logLikelihood = (\<lambda>np.
          let data = from_data_dict lib (make_data_dict lib ''dadi_input_JPA_JTR.tsv'')
                       [''JPA'', ''JTR''] [49, 41] False;
              func_ex = make_extrap_log_func lib (PAMex np dadi);
              start = perturb_params lib p0 1 upper_bound lower_bound;
              popt = optimize_log lib start data func_ex pts_l lower_bound upper_bound
                       (length start) 10;
              model = func_ex popt (sample_sizes lib data) pts_l
          in ll_multinom lib model data);
        printed = (\<lambda>np. fst (JPA_JTR_PAMex_folded np dadi lib))
    in printed_ll_opt (printed numpy) = logLikelihood numpy \<and>
       printed_AIC (printed numpy) = np_sub numpy (2 * 9) (np_mul numpy 2 (logLikelihood numpy)) \<and>
       printed_AIC (printed exact_arithmetic) = 2 * 9 - 2 * logLikelihood exact_arithmetic) \<and>
   params = [''nu1a'', ''nu2a'', ''nu1'', ''nu2'', ''m12'', ''m21'', ''Tam'', ''Ts'', ''Te''] \<and>
   length params = 9 \<and> arity Model_PAMex = length params \<and> ''theta'' \<notin> set params"
  by (simp add: JPA_JTR_PAMex_folded_def Let_def params_def exact_arithmetic_def)

subsection \<open>Parameter vectors of the wrong length\<close>

text \<open>
  Claim C7: a model function called with a parameter vector whose length is not the number
  of names it unpacks fails with \<open>ValueError\<close>, and the record of engine calls is as it was
  before the call: no engine operation has been invoked.
\<close>

theorem wrong_length_fails_before_engine:
  "length p \<noteq> arity m \<Longrightarrow> demographic_models m numpy dadi p ns pts s = (Inl ValueError, s)"
  by (cases m; cases ns) (auto split: list.splits)

text \<open>
  Claim C7 at \<open>SI\<close> with a vector of length 2.
\<close>

theorem wrong_length_fails_before_engine_witness:
  "length [1, 2 :: real] \<noteq> arity Model_SI \<and>
   demographic_models Model_SI exact_arithmetic null_engine [1, 2] (49, 41) 60 [] =
     (Inl ValueError, [])"
  using wrong_length_fails_before_engine
    [of "[1, 2]" Model_SI exact_arithmetic null_engine "(49, 41)" 60 "[]"]
  by simp

subsection \<open>The start of the growth epoch\<close>




subsection \<open>Migration during the growth epoch\<close>


end
